theory Spec2Isabelle
  imports Complex_Main
begin

section \<open>JavaScript strings\<close>

text \<open>
  A JavaScript string is a sequence of UTF-16 code units. The model keeps the code
  units as natural numbers, so that the character classes of \<open>JSON.parse\<close>,
  \<open>String.prototype.trim\<close>, \<open>parseFloat\<close> and the regular expressions of the form
  are the ones of the language. \<open>str\<close> embeds a HOL string literal, \<open>ch\<close> a
  character.
\<close>

type_synonym jsstring = "nat list"

definition str :: "string \<Rightarrow> jsstring" where
  "str s = map of_char s"

definition ch :: "char \<Rightarrow> nat" where
  "ch c = of_char c"

definition is_digit :: "nat \<Rightarrow> bool" where
  "is_digit c \<longleftrightarrow> ch CHR ''0'' \<le> c \<and> c \<le> ch CHR ''9''"

definition is_letter :: "nat \<Rightarrow> bool" where
  "is_letter c \<longleftrightarrow>
     (ch CHR ''a'' \<le> c \<and> c \<le> ch CHR ''z'') \<or> (ch CHR ''A'' \<le> c \<and> c \<le> ch CHR ''Z'')"

text \<open>
  White space and line terminators of ECMAScript: what \<open>\s\<close> matches, what
  \<open>trim\<close> strips and what \<open>parseFloat\<close> skips.
\<close>

definition is_js_space :: "nat \<Rightarrow> bool" where
  "is_js_space c \<longleftrightarrow>
     (0x09 \<le> c \<and> c \<le> 0x0D) \<or> c = 0x20 \<or> c = 0xA0 \<or> c = 0x1680
     \<or> (0x2000 \<le> c \<and> c \<le> 0x200A) \<or> c = 0x2028 \<or> c = 0x2029 \<or> c = 0x202F
     \<or> c = 0x205F \<or> c = 0x3000 \<or> c = 0xFEFF"

definition trim :: "jsstring \<Rightarrow> jsstring" where
  "trim s = rev (dropWhile is_js_space (rev (dropWhile is_js_space s)))"

text \<open>Reads one code unit if it satisfies the test.\<close>

fun accept :: "(nat \<Rightarrow> bool) \<Rightarrow> jsstring \<Rightarrow> bool \<times> jsstring" where
  "accept P [] = (False, [])"
| "accept P (c # cs) = (if P c then (True, cs) else (False, c # cs))"

definition digitsValue :: "jsstring \<Rightarrow> nat" where
  "digitsValue ds = foldl (\<lambda>a c. a * 10 + (c - ch CHR ''0'')) 0 ds"

text \<open>
  The value of a decimal numeral: sign, digits read as an integer, power of ten.
  Numbers are exact rationals; the rounding to binary64 is not modelled.
\<close>

definition decimal :: "bool \<Rightarrow> nat \<Rightarrow> int \<Rightarrow> rat" where
  "decimal negative m e =
     (if negative then - 1 else 1) *
     (if 0 \<le> e then of_nat m * 10 ^ nat e else of_nat m / 10 ^ nat (- e))"

section \<open>JSON values and JSON.parse\<close>

text \<open>
  The values \<open>JSON.parse\<close> returns, and the object literal the code returns as its
  fallback. An object keeps its members in insertion order.
\<close>

datatype json =
    JNull
  | JBool bool
  | JNumber rat
  | JString jsstring
  | JArray "json list"
  | JObject "(jsstring \<times> json) list"

text \<open>\<open>obj[key]\<close>: \<open>None\<close> is undefined.\<close>

fun getMember :: "jsstring \<Rightarrow> json \<Rightarrow> json option" where
  "getMember k (JObject ms) = map_of ms k"
| "getMember k _ = None"

text \<open>
  \<open>JSON.parse\<close> is the platform's, not the repository's; it is modelled after the
  JSON grammar of ECMA-404 as ECMAScript reads it: a lexer, then a parser with an
  explicit stack. \<open>None\<close> stands for the SyntaxError.
\<close>

datatype token =
    TLBrace | TRBrace | TLBracket | TRBracket | TColon | TComma
  | TString jsstring | TNumber rat | TTrue | TFalse | TNull

definition is_json_ws :: "nat \<Rightarrow> bool" where
  "is_json_ws c \<longleftrightarrow> c = 0x20 \<or> c = 0x09 \<or> c = 0x0A \<or> c = 0x0D"

definition hexval :: "nat \<Rightarrow> nat option" where
  "hexval c =
     (if ch CHR ''0'' \<le> c \<and> c \<le> ch CHR ''9'' then Some (c - ch CHR ''0'')
      else if ch CHR ''a'' \<le> c \<and> c \<le> ch CHR ''f'' then Some (c - ch CHR ''a'' + 10)
      else if ch CHR ''A'' \<le> c \<and> c \<le> ch CHR ''F'' then Some (c - ch CHR ''A'' + 10)
      else None)"

text \<open>The character after a backslash (0x5C); 0x22 is the double quote.\<close>

definition escape :: "nat \<Rightarrow> nat option" where
  "escape c =
     (if c = 0x22 then Some 0x22
      else if c = 0x5C then Some 0x5C
      else if c = ch CHR ''/'' then Some (ch CHR ''/'')
      else if c = ch CHR ''b'' then Some 0x08
      else if c = ch CHR ''f'' then Some 0x0C
      else if c = ch CHR ''n'' then Some 0x0A
      else if c = ch CHR ''r'' then Some 0x0D
      else if c = ch CHR ''t'' then Some 0x09
      else None)"

text \<open>The rest of a string after its opening quote: the decoded string and what follows.\<close>

fun lex_string :: "jsstring \<Rightarrow> (jsstring \<times> jsstring) option" where
  "lex_string [] = None"
| "lex_string (c # cs) =
     (if c = 0x22 then Some ([], cs)
      else if c = 0x5C then
        (case cs of
           [] \<Rightarrow> None
         | e # es \<Rightarrow>
             if e = ch CHR ''u'' then
               (case es of
                  h1 # h2 # h3 # h4 # r \<Rightarrow>
                    (case (hexval h1, hexval h2, hexval h3, hexval h4) of
                       (Some a, Some b, Some c, Some d) \<Rightarrow>
                         map_option (apfst ((#) (((a * 16 + b) * 16 + c) * 16 + d)))
                           (lex_string r)
                     | _ \<Rightarrow> None)
                | _ \<Rightarrow> None)
             else
               (case escape e of
                  None \<Rightarrow> None
                | Some x \<Rightarrow> map_option (apfst ((#) x)) (lex_string es)))
      else if c < 0x20 then None
      else map_option (apfst ((#) c)) (lex_string cs))"

text \<open>
  A number: an optional minus, an integer part without a leading zero, an optional
  fraction, an optional exponent.
\<close>

definition lex_number :: "jsstring \<Rightarrow> (rat \<times> jsstring) option" where
  "lex_number cs =
     (let (negative, cs1) = accept (\<lambda>c. c = ch CHR ''-'') cs;
          ip = takeWhile is_digit cs1;
          cs2 = dropWhile is_digit cs1;
          (has_frac, cs3) = accept (\<lambda>c. c = ch CHR ''.'') cs2;
          fp = (if has_frac then takeWhile is_digit cs3 else []);
          cs4 = (if has_frac then dropWhile is_digit cs3 else cs3);
          (has_exp, cs5) = accept (\<lambda>c. c = ch CHR ''e'' \<or> c = ch CHR ''E'') cs4;
          (exp_minus, cs6) =
            (if has_exp then accept (\<lambda>c. c = ch CHR ''-'') cs5 else (False, cs5));
          (exp_plus, cs7) =
            (if has_exp \<and> \<not> exp_minus then accept (\<lambda>c. c = ch CHR ''+'') cs6
             else (False, cs6));
          ep = (if has_exp then takeWhile is_digit cs7 else []);
          cs8 = (if has_exp then dropWhile is_digit cs7 else cs7)
      in if ip = [] \<or> (1 < length ip \<and> take 1 ip = [ch CHR ''0''])
            \<or> (has_frac \<and> fp = []) \<or> (has_exp \<and> ep = [])
         then None
         else Some (decimal negative (digitsValue (ip @ fp))
                      ((if exp_minus then - int (digitsValue ep) else int (digitsValue ep))
                       - int (length fp)),
                    cs8))"

lemma accept_length: "accept P cs = (b, r) \<Longrightarrow> length r \<le> length cs"
  by (cases cs) (auto split: if_splits)

lemma dropWhile_shorter:
  "takeWhile P xs \<noteq> [] \<Longrightarrow> length (dropWhile P xs) < length xs"
  by (cases xs) (auto split: if_splits intro: le_imp_less_Suc length_dropWhile_le)

lemma lex_number_shorter:
  assumes "lex_number cs = Some (x, r)"
  shows "length r < length cs"
proof -
  obtain negative cs1 where a1: "accept (\<lambda>c. c = ch CHR ''-'') cs = (negative, cs1)"
    by (cases "accept (\<lambda>c. c = ch CHR ''-'') cs")
  let ?cs2 = "dropWhile is_digit cs1"
  obtain has_frac cs3 where a3: "accept (\<lambda>c. c = ch CHR ''.'') ?cs2 = (has_frac, cs3)"
    by (cases "accept (\<lambda>c. c = ch CHR ''.'') ?cs2")
  let ?cs4 = "if has_frac then dropWhile is_digit cs3 else cs3"
  obtain has_exp cs5 where
    a5: "accept (\<lambda>c. c = ch CHR ''e'' \<or> c = ch CHR ''E'') ?cs4 = (has_exp, cs5)"
    by (cases "accept (\<lambda>c. c = ch CHR ''e'' \<or> c = ch CHR ''E'') ?cs4")
  obtain exp_minus cs6 where
    a6: "(if has_exp then accept (\<lambda>c. c = ch CHR ''-'') cs5 else (False, cs5)) = (exp_minus, cs6)"
    by (cases "if has_exp then accept (\<lambda>c. c = ch CHR ''-'') cs5 else (False, cs5)")
  obtain exp_plus cs7 where
    a7: "(if has_exp \<and> \<not> exp_minus then accept (\<lambda>c. c = ch CHR ''+'') cs6 else (False, cs6))
         = (exp_plus, cs7)"
    by (cases "if has_exp \<and> \<not> exp_minus then accept (\<lambda>c. c = ch CHR ''+'') cs6 else (False, cs6)")
  let ?cs8 = "if has_exp then dropWhile is_digit cs7 else cs7"
  from assms have digits: "takeWhile is_digit cs1 \<noteq> []" and r: "r = ?cs8"
    unfolding lex_number_def Let_def a1 prod.case a3 a5 a6 a7
    by (auto split: if_splits)
  have "length ?cs8 \<le> length cs7"
    by (simp add: length_dropWhile_le)
  also have "\<dots> \<le> length cs6"
    using a7 by (auto split: if_splits dest: accept_length)
  also have "\<dots> \<le> length cs5"
    using a6 by (auto split: if_splits dest: accept_length)
  also have "\<dots> \<le> length ?cs4"
    using a5 by (rule accept_length)
  also have "\<dots> \<le> length cs3"
    by (simp add: length_dropWhile_le)
  also have "\<dots> \<le> length ?cs2"
    using a3 by (rule accept_length)
  also have "\<dots> < length cs1"
    using digits by (rule dropWhile_shorter)
  also have "\<dots> \<le> length cs"
    using a1 by (rule accept_length)
  finally show ?thesis
    by (simp add: r)
qed

lemma lex_string_shorter: "lex_string cs = Some (s, r) \<Longrightarrow> length r < length cs"
proof (induction cs arbitrary: s r rule: lex_string.induct)
  case 1
  then show ?case by simp
next
  case (2 c cs)
  from "2.prems" "2.IH" show ?case
    by (fastforce split: if_splits list.splits option.splits prod.splits)
qed

function tokenize :: "jsstring \<Rightarrow> token list option" where
  "tokenize [] = Some []"
| "tokenize (c # cs) =
     (if is_json_ws c then tokenize cs
      else if c = ch CHR ''{'' then map_option ((#) TLBrace) (tokenize cs)
      else if c = ch CHR ''}'' then map_option ((#) TRBrace) (tokenize cs)
      else if c = ch CHR ''['' then map_option ((#) TLBracket) (tokenize cs)
      else if c = ch CHR '']'' then map_option ((#) TRBracket) (tokenize cs)
      else if c = ch CHR '':'' then map_option ((#) TColon) (tokenize cs)
      else if c = ch CHR '','' then map_option ((#) TComma) (tokenize cs)
      else if c = 0x22 then
        (case lex_string cs of
           None \<Rightarrow> None
         | Some (s, r) \<Rightarrow> map_option ((#) (TString s)) (tokenize r))
      else if c = ch CHR ''-'' \<or> is_digit c then
        (case lex_number (c # cs) of
           None \<Rightarrow> None
         | Some (x, r) \<Rightarrow> map_option ((#) (TNumber x)) (tokenize r))
      else if take 4 (c # cs) = str ''true'' then map_option ((#) TTrue) (tokenize (drop 3 cs))
      else if take 5 (c # cs) = str ''false'' then map_option ((#) TFalse) (tokenize (drop 4 cs))
      else if take 4 (c # cs) = str ''null'' then map_option ((#) TNull) (tokenize (drop 3 cs))
      else None)"
  by pat_completeness auto
termination
proof (relation "measure length")
  show "wf (measure length)" by simp
qed (auto dest: lex_string_shorter lex_number_shorter)

text \<open>
  A repeated key keeps its first place and takes the last value, as a property
  assignment does.
\<close>

fun setMember :: "jsstring \<Rightarrow> json \<Rightarrow> (jsstring \<times> json) list \<Rightarrow> (jsstring \<times> json) list" where
  "setMember k v [] = [(k, v)]"
| "setMember k v ((k', v') # ms) =
     (if k' = k then (k, v) # ms else (k', v') # setMember k v ms)"

text \<open>
  The parser's stack: an array with the elements read so far, an object with the
  members read so far, or an object whose member of the given key is being read.
\<close>

datatype frame =
    ArrayFrame "json list"
  | ObjectFrame "(jsstring \<times> json) list"
  | MemberFrame "(jsstring \<times> json) list" jsstring

datatype pstate =
    ExpectValue "frame list"
  | ExpectValueOrEnd "frame list"
  | ExpectKeyOrEnd "frame list"
  | ExpectKey "frame list"
  | ExpectColon jsstring "frame list"
  | ExpectCommaOrEnd "frame list"
  | Done json

fun complete :: "json \<Rightarrow> frame list \<Rightarrow> pstate option" where
  "complete v [] = Some (Done v)"
| "complete v (ArrayFrame vs # stack) = Some (ExpectCommaOrEnd (ArrayFrame (vs @ [v]) # stack))"
| "complete v (MemberFrame ms k # stack) =
     Some (ExpectCommaOrEnd (ObjectFrame (setMember k v ms) # stack))"
| "complete v (ObjectFrame ms # stack) = None"

fun startValue :: "frame list \<Rightarrow> token \<Rightarrow> pstate option" where
  "startValue stack TLBracket = Some (ExpectValueOrEnd (ArrayFrame [] # stack))"
| "startValue stack TLBrace = Some (ExpectKeyOrEnd (ObjectFrame [] # stack))"
| "startValue stack (TString s) = complete (JString s) stack"
| "startValue stack (TNumber x) = complete (JNumber x) stack"
| "startValue stack TTrue = complete (JBool True) stack"
| "startValue stack TFalse = complete (JBool False) stack"
| "startValue stack TNull = complete JNull stack"
| "startValue stack _ = None"

fun closeArray :: "frame list \<Rightarrow> pstate option" where
  "closeArray (ArrayFrame vs # stack) = complete (JArray vs) stack"
| "closeArray _ = None"

fun closeObject :: "frame list \<Rightarrow> pstate option" where
  "closeObject (ObjectFrame ms # stack) = complete (JObject ms) stack"
| "closeObject _ = None"

fun openMember :: "jsstring \<Rightarrow> frame list \<Rightarrow> pstate option" where
  "openMember k (ObjectFrame ms # stack) = Some (ExpectValue (MemberFrame ms k # stack))"
| "openMember k _ = None"

fun afterComma :: "frame list \<Rightarrow> pstate option" where
  "afterComma (ArrayFrame vs # stack) = Some (ExpectValue (ArrayFrame vs # stack))"
| "afterComma (ObjectFrame ms # stack) = Some (ExpectKey (ObjectFrame ms # stack))"
| "afterComma _ = None"

fun step :: "pstate \<Rightarrow> token \<Rightarrow> pstate option" where
  "step (ExpectValue stack) t = startValue stack t"
| "step (ExpectValueOrEnd stack) t =
     (case t of TRBracket \<Rightarrow> closeArray stack | _ \<Rightarrow> startValue stack t)"
| "step (ExpectKeyOrEnd stack) t =
     (case t of TRBrace \<Rightarrow> closeObject stack
      | TString k \<Rightarrow> Some (ExpectColon k stack)
      | _ \<Rightarrow> None)"
| "step (ExpectKey stack) t =
     (case t of TString k \<Rightarrow> Some (ExpectColon k stack) | _ \<Rightarrow> None)"
| "step (ExpectColon k stack) t =
     (case t of TColon \<Rightarrow> openMember k stack | _ \<Rightarrow> None)"
| "step (ExpectCommaOrEnd stack) t =
     (case t of TComma \<Rightarrow> afterComma stack
      | TRBracket \<Rightarrow> closeArray stack
      | TRBrace \<Rightarrow> closeObject stack
      | _ \<Rightarrow> None)"
| "step (Done v) t = None"

fun parseTokens :: "pstate \<Rightarrow> token list \<Rightarrow> json option" where
  "parseTokens (Done v) [] = Some v"
| "parseTokens s [] = None"
| "parseTokens s (t # ts) = (case step s t of None \<Rightarrow> None | Some s' \<Rightarrow> parseTokens s' ts)"

definition JSON_parse :: "jsstring \<Rightarrow> json option" where
  "JSON_parse text =
     (case tokenize text of None \<Rightarrow> None | Some ts \<Rightarrow> parseTokens (ExpectValue []) ts)"

section \<open>Errors, the upstream endpoint and the observable trace\<close>

text \<open>
  What the code can catch. \<open>UpstreamError s\<close> is an error object thrown by the client
  library's \<open>openai.chat.completions.create\<close>; \<open>s\<close> is its \<open>status\<close> property
  (\<open>None\<close>: the property is undefined, as for a connection failure). \<open>TypeError\<close> is
  raised by a property access on \<open>undefined\<close> or \<open>null\<close>, \<open>SyntaxError\<close> by
  \<open>JSON.parse\<close>, and \<open>EmptyResponseError\<close> is the
  \<open>new Error("The AI returned an empty response. Please try again.")\<close> of
  \<open>generateFitnessPlan\<close>. Only \<open>UpstreamError\<close> carries a status.
\<close>

datatype error = UpstreamError "int option" | TypeError | SyntaxError | EmptyResponseError

fun status :: "error \<Rightarrow> int option" where
  "status (UpstreamError s) = s"
| "status TypeError = None"
| "status SyntaxError = None"
| "status EmptyResponseError = None"

text \<open>
  The tests the code makes on \<open>error.status\<close>, a number or undefined:
  \<open>!x\<close> (undefined and 0 are falsy), \<open>x >= n\<close> and \<open>x === n\<close> (both false on
  undefined).
\<close>

fun js_not :: "int option \<Rightarrow> bool" where
  "js_not None = True"
| "js_not (Some n) = (n = 0)"

fun js_ge :: "int option \<Rightarrow> int \<Rightarrow> bool" where
  "js_ge None n = False"
| "js_ge (Some m) n = (n \<le> m)"

fun js_strict_eq :: "int option \<Rightarrow> int \<Rightarrow> bool" where
  "js_strict_eq None n = False"
| "js_strict_eq (Some m) n = (m = n)"

text \<open>
  What the endpoint returns, as far as the code reads it: the property \<open>choices\<close>,
  the \<open>message\<close> of a choice and the \<open>content\<close> of a message. \<open>None\<close> is a
  property that is undefined or null; the content is a string or null, as the client
  library types it.
\<close>

datatype chat_message = ChatMessage (content: "jsstring option")

datatype choice = Choice (message: "chat_message option")

datatype response = ChatCompletion (choices: "choice list option")

text \<open>
  The argument of \<open>openai.chat.completions.create\<close>: the model identifier, the text
  of the single user message, and whether \<open>response_format: {type: "json_object"}\<close>
  is set.
\<close>

datatype request = ChatRequest (model: jsstring) (prompt: jsstring) (json_format: bool)

text \<open>
  Console messages are kept structured: the constructor names the call site, the
  arguments are the values the source interpolates or passes.
\<close>

datatype console_message =
    RetryNotice int int
  | QuoteStart jsstring jsstring
  | QuoteSuccess jsstring
  | QuoteFailure error
  | RateLimitWarning
  | PlanFailure error
  | FallbackWarning

datatype event =
    ApiRequest request
  | SetTimeout int
  | ConsoleLog console_message
  | ConsoleWarn console_message
  | ConsoleError console_message

text \<open>
  The world is the trace of events so far, oldest first. The endpoint may answer any
  call in any way: its behaviour is a function of the history and of the request,
  returning the error thrown (\<open>Inl\<close>) or the response (\<open>Inr\<close>).
\<close>

type_synonym trace = "event list"

type_synonym upstream = "trace \<Rightarrow> request \<Rightarrow> error + response"

type_synonym 'a operation = "trace \<Rightarrow> (error + 'a) \<times> trace"

definition create :: "upstream \<Rightarrow> request \<Rightarrow> response operation" where
  "create up req w = (up w req, w @ [ApiRequest req])"

fun requestCount :: "trace \<Rightarrow> nat" where
  "requestCount [] = 0"
| "requestCount (ApiRequest r # es) = Suc (requestCount es)"
| "requestCount (e # es) = requestCount es"

fun timeouts :: "trace \<Rightarrow> int list" where
  "timeouts [] = []"
| "timeouts (SetTimeout d # es) = d # timeouts es"
| "timeouts (e # es) = timeouts es"

text \<open>
  \<open>response.choices[0].message.content\<close>: a TypeError when \<open>choices\<close>, its first
  element or the message of that is missing.
\<close>

definition firstContent :: "response \<Rightarrow> error + jsstring option" where
  "firstContent r =
     (case choices r of
        None \<Rightarrow> Inl TypeError
      | Some [] \<Rightarrow> Inl TypeError
      | Some (c # _) \<Rightarrow>
          (case message c of None \<Rightarrow> Inl TypeError | Some m \<Rightarrow> Inr (content m)))"

text \<open>A completion with one choice, whose message has the given content.\<close>

definition completion :: "jsstring \<Rightarrow> response" where
  "completion body = ChatCompletion (Some [Choice (Some (ChatMessage (Some body)))])"

section \<open>retryWithBackoff (aiService.js, lines 31-47)\<close>

definition isRetryable :: "error \<Rightarrow> bool" where
  "isRetryable e \<longleftrightarrow>
     js_not (status e) \<or> js_ge (status e) 500 \<or> js_strict_eq (status e) 429"

text \<open>
  \<open>retries\<close> and \<open>delay\<close> are JavaScript numbers; both callers pass small integers,
  modelled as unbounded integers. The recursion follows the source: one attempt, then
  either the result, the error rethrown, or a log line, a timer and the recursive call
  with one retry less and the delay doubled.
\<close>

function retryWithBackoff :: "'a operation \<Rightarrow> int \<Rightarrow> int \<Rightarrow> 'a operation" where
  "retryWithBackoff operation retries delay w =
     (case operation w of
        (Inr v, w') \<Rightarrow> (Inr v, w')
      | (Inl e, w') \<Rightarrow>
          if retries \<le> 0 then (Inl e, w')
          else if \<not> isRetryable e then (Inl e, w')
          else retryWithBackoff operation (retries - 1) (delay * 2)
                 (w' @ [ConsoleLog (RetryNotice delay retries), SetTimeout delay]))"
  by pat_completeness auto
termination
  by (relation "measure (\<lambda>(operation, retries, delay, w). nat retries)") auto

declare retryWithBackoff.simps [simp del]

section \<open>The user profile and the prompts\<close>

text \<open>
  The object the form hands over (\<open>formData\<close> in InputForm, \<open>userData\<close> in
  aiService.js): twelve properties, all strings as the inputs deliver them.
\<close>

record userData =
  name :: jsstring
  age :: jsstring
  gender :: jsstring
  height :: jsstring
  weight :: jsstring
  goal :: jsstring
  fitnessLevel :: jsstring
  location :: jsstring
  dietPreference :: jsstring
  sleepHours :: jsstring
  waterIntake :: jsstring
  stressLevel :: jsstring

datatype fieldName =
    Name | Age | Gender | Height | Weight | Goal | FitnessLevel | Location
  | DietPreference | SleepHours | WaterIntake | StressLevel

fun getField :: "fieldName \<Rightarrow> userData \<Rightarrow> jsstring" where
  "getField Name u = name u"
| "getField Age u = age u"
| "getField Gender u = gender u"
| "getField Height u = height u"
| "getField Weight u = weight u"
| "getField Goal u = goal u"
| "getField FitnessLevel u = fitnessLevel u"
| "getField Location u = location u"
| "getField DietPreference u = dietPreference u"
| "getField SleepHours u = sleepHours u"
| "getField WaterIntake u = waterIntake u"
| "getField StressLevel u = stressLevel u"

text \<open>
  A template literal is a sequence of literal chunks and substitutions
  \<open>${field}\<close>; its value is the concatenation. \<open>NL\<close> is the line feed between two
  source lines of the literal.
\<close>

datatype part = Lit jsstring | Sub fieldName

abbreviation NL :: part where
  "NL \<equiv> Lit [0x0A]"

fun renderPart :: "userData \<Rightarrow> part \<Rightarrow> jsstring" where
  "renderPart u (Lit s) = s"
| "renderPart u (Sub f) = getField f u"

definition render :: "part list \<Rightarrow> userData \<Rightarrow> jsstring" where
  "render template u = concat (map (renderPart u) template)"

fun substitutions :: "part list \<Rightarrow> fieldName list" where
  "substitutions [] = []"
| "substitutions (Sub f # ps) = f # substitutions ps"
| "substitutions (Lit s # ps) = substitutions ps"

text \<open>The template literal of \<open>generateFitnessPlan\<close>, lines 125-163.\<close>

definition planTemplate :: "part list" where
  \<open>planTemplate =
   [
    NL,
    Lit (str ''    You are an expert fitness coach and nutritionist. ''), NL,
    Lit (str ''    Generate a 7-day Workout and Diet plan for ''), Sub Name, Lit (str '':''), NL,
    Lit (str ''    - Profile: ''), Sub Age, Lit (str '' years old, ''), Sub Gender, Lit (str '', ''), Sub Weight, Lit (str ''kg, ''), Sub Height, Lit (str ''cm.''), NL,
    Lit (str ''    - Fitness Level: ''), Sub FitnessLevel, NL,
    Lit (str ''    - Goal: ''), Sub Goal, NL,
    Lit (str ''    - Workout Location: ''), Sub Location, NL,
    Lit (str ''    - Dietary Preference: ''), Sub DietPreference, NL,
    Lit (str '' ''), NL,
    Lit (str ''    IMPORTANT: Return ONLY valid JSON. Do not add markdown or text outside the JSON.''), NL,
    Lit (str ''    The response must follow this exact structure:''), NL,
    Lit (str ''    {''), NL,
    Lit (str ''      "workout_plan": [''), NL,
    Lit (str ''        { ''), NL,
    Lit (str ''          "day": "Monday", ''), NL,
    Lit (str ''          "focus": "Muscle Group", ''), NL,
    Lit (str ''          "exercises": [''), NL,
    Lit (str ''            { "name": "Exercise", "sets": "3", "reps": "12", "tips": "Tip" }''), NL,
    Lit (str ''          ] ''), NL,
    Lit (str ''        },''), NL,
    Lit (str ''        ... (repeat for 7 days)''), NL,
    Lit (str ''      ],''), NL,
    Lit (str ''      "diet_plan": [''), NL,
    Lit (str ''        { ''), NL,
    Lit (str ''          "meal": "Breakfast", ''), NL,
    Lit (str ''          "food": "Description", ''), NL,
    Lit (str ''          "calories": 400, ''), NL,
    Lit (str ''          "protein": "30g", ''), NL,
    Lit (str ''          "carbs": "40g", ''), NL,
    Lit (str ''          "fats": "10g" ''), NL,
    Lit (str ''        },''), NL,
    Lit (str ''        ... (include Breakfast, Lunch, Snack, Dinner)''), NL,
    Lit (str ''      ],''), NL,
    Lit (str ''      "summary": {''), NL,
    Lit (str ''        "daily_calories": 2500,''), NL,
    Lit (str ''        "macros": { "protein": "150g", "carbs": "300g", "fats": "70g" }''), NL,
    Lit (str ''      }''), NL,
    Lit (str ''    }''), NL,
    Lit (str ''  '')
   ]\<close>

text \<open>The template literal of \<open>generateMotivationQuote\<close>, lines 58-65.\<close>

definition quoteTemplate :: "part list" where
  \<open>quoteTemplate =
   [
    NL,
    Lit (str ''    You are an inspiring fitness coach. Generate a short, powerful, 1-sentence daily motivational quote for ''), Sub Name, Lit (str ''.''), NL,
    Lit (str ''    Context:''), NL,
    Lit (str ''    - Goal: ''), Sub Goal, NL,
    Lit (str ''    - Level: ''), Sub FitnessLevel, NL,
    Lit (str ''    ''), NL,
    Lit (str ''    CRITICAL: Output ONLY the quote text. No quotation marks, no "Author:", no tags.''), NL,
    Lit (str ''    '')
   ]\<close>

definition modelId :: jsstring where
  "modelId = str ''google/gemini-2.0-flash-exp:free''"

text \<open>The request of \<open>generateFitnessPlan\<close>, lines 169-173.\<close>

definition planRequest :: "userData \<Rightarrow> request" where
  "planRequest u = ChatRequest modelId (render planTemplate u) True"

text \<open>The request of \<open>generateMotivationQuote\<close>, lines 70-73.\<close>

definition quoteRequest :: "userData \<Rightarrow> request" where
  "quoteRequest u = ChatRequest modelId (render quoteTemplate u) False"

section \<open>generateFitnessPlan (aiService.js, lines 109-297)\<close>

text \<open>The object literals of the fallback plan.\<close>

definition exercise :: "string \<Rightarrow> string \<Rightarrow> string \<Rightarrow> string \<Rightarrow> json" where
  "exercise n s r t =
     JObject [(str ''name'', JString (str n)), (str ''sets'', JString (str s)),
              (str ''reps'', JString (str r)), (str ''tips'', JString (str t))]"

definition workoutDay :: "string \<Rightarrow> string \<Rightarrow> json list \<Rightarrow> json" where
  "workoutDay d f es =
     JObject [(str ''day'', JString (str d)), (str ''focus'', JString (str f)),
              (str ''exercises'', JArray es)]"

definition mealEntry :: "string \<Rightarrow> string \<Rightarrow> rat \<Rightarrow> string \<Rightarrow> string \<Rightarrow> string \<Rightarrow> json" where
  "mealEntry m f c p cb ft =
     JObject [(str ''meal'', JString (str m)), (str ''food'', JString (str f)),
              (str ''calories'', JNumber c), (str ''protein'', JString (str p)),
              (str ''carbs'', JString (str cb)), (str ''fats'', JString (str ft))]"

text \<open>The object returned by the catch block, lines 197-295.\<close>

definition fallbackPlan :: json where
  "fallbackPlan =
     JObject
      [(str ''workout_plan'', JArray
         [workoutDay ''Monday'' ''Full Body Power''
            [exercise ''Barbell Squats'' ''4'' ''8-10'' ''Keep chest up and core tight'',
             exercise ''Bench Press'' ''3'' ''10'' ''Control the descent'',
             exercise ''Bent Over Rows'' ''3'' ''12'' ''Squeeze shoulder blades'',
             exercise ''Plank'' ''3'' ''60s'' ''Maintain straight line''],
          workoutDay ''Tuesday'' ''Active Recovery''
            [exercise ''Light Jogging'' ''1'' ''20 mins'' ''Keep comfortable pace'',
             exercise ''Stretching Routine'' ''1'' ''15 mins'' ''Focus on tight areas''],
          workoutDay ''Wednesday'' ''Upper Body Strength''
            [exercise ''Overhead Press'' ''3'' ''10'' ''Don't arch back'',
             exercise ''Pull Ups'' ''3'' ''Max'' ''Full range of motion'',
             exercise ''Dumbbell Curls'' ''3'' ''12'' ''Isolate biceps''],
          workoutDay ''Thursday'' ''Rest Day''
            [exercise ''Walking'' ''1'' ''30 mins'' ''Leisurely pace''],
          workoutDay ''Friday'' ''Lower Body & Core''
            [exercise ''Romanian Deadlifts'' ''3'' ''10'' ''Hinge at hips'',
             exercise ''Lunges'' ''3'' ''12/leg'' ''Knee shouldn't pass toe'',
             exercise ''Leg Raises'' ''3'' ''15'' ''Control movement''],
          workoutDay ''Saturday'' ''Cardio & HIIT''
            [exercise ''Burpees'' ''3'' ''10'' ''Explosive movement'',
             exercise ''Mountain Climbers'' ''3'' ''30s'' ''Keep hips low'',
             exercise ''Jump Rope'' ''3'' ''2 mins'' ''Stay on toes''],
          workoutDay ''Sunday'' ''Rest & Prep''
            [exercise ''Yoga'' ''1'' ''20 mins'' ''Relax and breathe'']]),
       (str ''diet_plan'', JArray
         [mealEntry ''Breakfast'' ''Oatmeal with Berries & Protein Shake'' 450 ''30g'' ''50g'' ''10g'',
          mealEntry ''Lunch'' ''Grilled Chicken Salad with Quinoa'' 600 ''45g'' ''40g'' ''20g'',
          mealEntry ''Snack'' ''Greek Yogurt & Almonds'' 250 ''15g'' ''10g'' ''15g'',
          mealEntry ''Dinner'' ''Baked Salmon with Steamed Broccoli'' 500 ''40g'' ''10g'' ''25g'']),
       (str ''summary'', JObject
         [(str ''daily_calories'', JNumber 2200),
          (str ''macros'', JObject
            [(str ''protein'', JString (str ''160g'')),
             (str ''carbs'', JString (str ''200g'')),
             (str ''fats'', JString (str ''80g''))])])]"

text \<open>
  The source returns a bare object. The tag says which \<open>return\<close> produced it:
  \<open>Generated\<close> for line 185 (the parsed response), \<open>Fallback\<close> for line 197 (the
  object above). It is the model's record of the path taken, not a property of the
  object.
\<close>

datatype origin = Generated | Fallback

text \<open>
  Lines 177-185: the content of the first choice, the test \<open>!content\<close> (null and the
  empty string are falsy) and \<open>JSON.parse\<close>. Each can throw.
\<close>

definition parseContent :: "response \<Rightarrow> error + json" where
  "parseContent r =
     (case firstContent r of
        Inl e \<Rightarrow> Inl e
      | Inr None \<Rightarrow> Inl EmptyResponseError
      | Inr (Some c) \<Rightarrow>
          if c = [] then Inl EmptyResponseError
          else (case JSON_parse c of None \<Rightarrow> Inl SyntaxError | Some v \<Rightarrow> Inr v))"

text \<open>Lines 187-296: the catch block logs twice and returns the fallback plan.\<close>

definition catchBlock :: "error \<Rightarrow> (origin \<times> json) operation" where
  "catchBlock e w =
     (Inr (Fallback, fallbackPlan), w @ [ConsoleError (PlanFailure e), ConsoleWarn FallbackWarning])"

text \<open>
  What \<open>generateFitnessPlan\<close> does with the outcome of the retry executor (the
  response, or the error it threw), lines 176-296: the rest of the try block, and the
  catch block for whatever was thrown. The spec calls this step validateOrFallback.
\<close>

definition validateOrFallback :: "error + response \<Rightarrow> (origin \<times> json) operation" where
  "validateOrFallback outcome w =
     (case outcome of
        Inl e \<Rightarrow> catchBlock e w
      | Inr r \<Rightarrow> (case parseContent r of Inl e \<Rightarrow> catchBlock e w | Inr v \<Rightarrow> (Inr (Generated, v), w)))"

definition generateFitnessPlan :: "upstream \<Rightarrow> userData \<Rightarrow> (origin \<times> json) operation" where
  "generateFitnessPlan up u w =
     (case retryWithBackoff (create up (planRequest u)) 2 1000 w of
        (outcome, w') \<Rightarrow> validateOrFallback outcome w')"

section \<open>generateMotivationQuote (aiService.js, lines 55-87)\<close>

text \<open>
  The operation passed to \<open>retryWithBackoff\<close>, lines 68-77. \<open>content.trim()\<close> throws
  a TypeError on a null content.
\<close>

definition quoteOperation :: "upstream \<Rightarrow> userData \<Rightarrow> jsstring operation" where
  "quoteOperation up u w =
     (case create up (quoteRequest u) (w @ [ConsoleLog (QuoteStart (name u) (goal u))]) of
        (Inl e, w') \<Rightarrow> (Inl e, w')
      | (Inr r, w') \<Rightarrow>
          (case firstContent r of
             Inl e \<Rightarrow> (Inl e, w')
           | Inr None \<Rightarrow> (Inl TypeError, w')
           | Inr (Some c) \<Rightarrow> (Inr (trim c), w' @ [ConsoleLog (QuoteSuccess (trim c))])))"

definition fallbackQuote :: jsstring where
  "fallbackQuote = str ''Consistency is the key to progress. Keep showing up!''"

definition generateMotivationQuote :: "upstream \<Rightarrow> userData \<Rightarrow> jsstring operation" where
  "generateMotivationQuote up u w =
     (case retryWithBackoff (quoteOperation up u) 2 1000 w of
        (Inr quote, w') \<Rightarrow> (Inr quote, w')
      | (Inl e, w') \<Rightarrow>
          (Inr fallbackQuote,
           w' @ [ConsoleError (QuoteFailure e)]
              @ (if js_strict_eq (status e) 402 \<or> js_strict_eq (status e) 429
                 then [ConsoleWarn RateLimitWarning] else [])))"

section \<open>InputForm (lines 49-143 and the inputs it renders)\<close>

datatype jsnumber = NaN | Num rat | PosInfinity | NegInfinity

text \<open>
  The value of an exponent part, \<open>e\<close> or \<open>E\<close>, an optional sign and digits, at the
  head of a string; 0 when there is none or it has no digit.
\<close>

definition exponentPart :: "jsstring \<Rightarrow> int" where
  "exponentPart s =
     (let (has_exp, s1) = accept (\<lambda>c. c = ch CHR ''e'' \<or> c = ch CHR ''E'') s;
          (exp_minus, s2) = accept (\<lambda>c. c = ch CHR ''-'') s1;
          (exp_plus, s3) = (if exp_minus then (False, s2) else accept (\<lambda>c. c = ch CHR ''+'') s2);
          ep = takeWhile is_digit s3
      in if has_exp then (if exp_minus then - int (digitsValue ep) else int (digitsValue ep))
         else 0)"

text \<open>
  The longest prefix that is an unsigned decimal literal: digits, a point and digits,
  an exponent part; NaN when it has no digit.
\<close>

definition unsignedDecimal :: "bool \<Rightarrow> jsstring \<Rightarrow> jsnumber" where
  "unsignedDecimal negative s =
     (let ip = takeWhile is_digit s;
          s1 = dropWhile is_digit s;
          (dot, s2) = accept (\<lambda>c. c = ch CHR ''.'') s1;
          fp = (if dot then takeWhile is_digit s2 else []);
          s3 = (if dot then dropWhile is_digit s2 else s2)
      in if ip = [] \<and> fp = [] then NaN
         else Num (decimal negative (digitsValue (ip @ fp)) (exponentPart s3 - int (length fp))))"

text \<open>
  \<open>parseFloat\<close>: leading white space, a sign, then \<open>Infinity\<close> or a decimal
  literal.
\<close>

definition parseFloat :: "jsstring \<Rightarrow> jsnumber" where
  "parseFloat s =
     (let s1 = dropWhile is_js_space s;
          (negative, s2) = accept (\<lambda>c. c = ch CHR ''-'') s1;
          (plus, s3) = (if negative then (False, s2) else accept (\<lambda>c. c = ch CHR ''+'') s2)
      in if take 8 s3 = str ''Infinity'' then (if negative then NegInfinity else PosInfinity)
         else unsignedDecimal negative s3)"

text \<open>\<open>x > 0\<close> on a number.\<close>

fun js_positive :: "jsnumber \<Rightarrow> bool" where
  "js_positive NaN = False"
| "js_positive (Num x) = (0 < x)"
| "js_positive PosInfinity = True"
| "js_positive NegInfinity = False"

text \<open>The regular expressions of \<open>updateField\<close>: \<open>/^\d*\.?\d*$/\<close> and \<open>/^[a-zA-Z\s]*$/\<close>.\<close>

definition matchesNumber :: "jsstring \<Rightarrow> bool" where
  "matchesNumber s =
     (case dropWhile is_digit s of
        [] \<Rightarrow> True
      | c # r \<Rightarrow> c = ch CHR ''.'' \<and> list_all is_digit r)"

definition matchesName :: "jsstring \<Rightarrow> bool" where
  "matchesName s = list_all (\<lambda>c. is_letter c \<or> is_js_space c) s"

definition numericFields :: "fieldName list" where
  "numericFields = [Age, Height, Weight, SleepHours, WaterIntake]"

text \<open>\<open>{ ...prev, [fieldName]: value }\<close>\<close>

fun setField :: "fieldName \<Rightarrow> jsstring \<Rightarrow> userData \<Rightarrow> userData" where
  "setField Name v u = u\<lparr>name := v\<rparr>"
| "setField Age v u = u\<lparr>age := v\<rparr>"
| "setField Gender v u = u\<lparr>gender := v\<rparr>"
| "setField Height v u = u\<lparr>height := v\<rparr>"
| "setField Weight v u = u\<lparr>weight := v\<rparr>"
| "setField Goal v u = u\<lparr>goal := v\<rparr>"
| "setField FitnessLevel v u = u\<lparr>fitnessLevel := v\<rparr>"
| "setField Location v u = u\<lparr>location := v\<rparr>"
| "setField DietPreference v u = u\<lparr>dietPreference := v\<rparr>"
| "setField SleepHours v u = u\<lparr>sleepHours := v\<rparr>"
| "setField WaterIntake v u = u\<lparr>waterIntake := v\<rparr>"
| "setField StressLevel v u = u\<lparr>stressLevel := v\<rparr>"

text \<open>Lines 76-98.\<close>

definition updateField :: "fieldName \<Rightarrow> jsstring \<Rightarrow> userData \<Rightarrow> userData" where
  "updateField f v u =
     (if f \<in> set numericFields then
        (if v = [] \<or> matchesNumber v then setField f v u else u)
      else if f = Name then
        (if v = [] \<or> matchesName v then setField f v u else u)
      else setField f v u)"

text \<open>The state of the component: the step shown and the form data (lines 51-67).\<close>

definition initialFormData :: userData where
  "initialFormData =
     \<lparr>name = [], age = [], gender = [], height = [], weight = [],
      goal = str ''Weight Loss'', fitnessLevel = str ''Beginner'', location = str ''Gym'',
      dietPreference = [], sleepHours = [], waterIntake = [], stressLevel = []\<rparr>"

text \<open>Lines 105-131. A string is truthy when it is not empty.\<close>

definition hasValidNumber :: "jsstring \<Rightarrow> bool" where
  "hasValidNumber s \<longleftrightarrow> s \<noteq> [] \<and> js_positive (parseFloat s)"

definition isCurrentStepValid :: "int \<Rightarrow> userData \<Rightarrow> bool" where
  "isCurrentStepValid currentStep formData =
     (if currentStep = 1 then
        length (trim (name formData)) > 0 \<and> gender formData \<noteq> []
        \<and> hasValidNumber (age formData) \<and> hasValidNumber (height formData)
        \<and> hasValidNumber (weight formData) \<and> hasValidNumber (sleepHours formData)
        \<and> hasValidNumber (waterIntake formData)
      else if currentStep = 2 then
        goal formData \<noteq> [] \<and> fitnessLevel formData \<noteq> [] \<and> stressLevel formData \<noteq> []
      else if currentStep = 3 then
        location formData \<noteq> [] \<and> dietPreference formData \<noteq> []
      else True)"

text \<open>
  The component with its route: the step, the data, the step whose markup is mounted,
  and the profile handed to
  \<open>navigate('/dashboard', { state: { userData: formData } })\<close>, once that has
  happened. The dashboard, which calls the pipeline with it, is not among the sources.
\<close>

record form =
  currentStep :: int
  formData :: userData
  mountedStep :: int
  handedOver :: "userData option"

definition initialForm :: form where
  "initialForm =
     \<lparr>currentStep = 1, formData = initialFormData, mountedStep = 1, handedOver = None\<rparr>"

text \<open>Lines 136-143 and 148-152.\<close>

definition goToNextStep :: "form \<Rightarrow> form" where
  "goToNextStep s =
     (if currentStep s < 3 then s\<lparr>currentStep := currentStep s + 1\<rparr>
      else s\<lparr>handedOver := Some (formData s)\<rparr>)"

definition goToPreviousStep :: "form \<Rightarrow> form" where
  "goToPreviousStep s = (if currentStep s > 1 then s\<lparr>currentStep := currentStep s - 1\<rparr> else s)"

text \<open>
  The step whose markup holds the input of a field (the three
  \<open>{currentStep === n && ...}\<close> blocks of the JSX).
\<close>

fun renderedAt :: "fieldName \<Rightarrow> int" where
  "renderedAt Name = 1"
| "renderedAt Age = 1"
| "renderedAt Gender = 1"
| "renderedAt Height = 1"
| "renderedAt Weight = 1"
| "renderedAt SleepHours = 1"
| "renderedAt WaterIntake = 1"
| "renderedAt Goal = 2"
| "renderedAt FitnessLevel = 2"
| "renderedAt StressLevel = 2"
| "renderedAt Location = 3"
| "renderedAt DietPreference = 3"

text \<open>
  What can happen to the component. The three blocks are children of
  \<open><AnimatePresence mode='wait'>\<close> (lines 188-195 of the component): when the step
  changes, the markup of the old step stays mounted while it animates out, and the
  markup of the new step is mounted when that animation has ended
  (\<open>ExitComplete\<close>). An input fires \<open>updateField\<close> while its markup is mounted, so
  also during the exit animation of its step; \<open>setFormData\<close> takes an updater
  function, so the change lands whatever the step is by then. The buttons are outside
  \<open>AnimatePresence\<close> and follow \<open>currentStep\<close> at once: Next is disabled unless
  \<open>isCurrentStepValid()\<close>, Back on the first step. After the navigation the form is
  gone.
\<close>

datatype action = Change fieldName jsstring | ClickNext | ClickBack | ExitComplete

fun perform :: "form \<Rightarrow> action \<Rightarrow> form" where
  "perform s (Change f v) =
     (if handedOver s = None \<and> renderedAt f = mountedStep s
      then s\<lparr>formData := updateField f v (formData s)\<rparr> else s)"
| "perform s ClickNext =
     (if handedOver s = None \<and> isCurrentStepValid (currentStep s) (formData s)
      then goToNextStep s else s)"
| "perform s ClickBack =
     (if handedOver s = None \<and> currentStep s \<noteq> 1 then goToPreviousStep s else s)"
| "perform s ExitComplete =
     (if handedOver s = None then s\<lparr>mountedStep := currentStep s\<rparr> else s)"

definition session :: "action list \<Rightarrow> form" where
  "session actions = foldl perform initialForm actions"

section \<open>Predicates of the specification\<close>

text \<open>
  The structural shape of a plan, as the specification words it (section 4.3: presence
  of the top-level keys and array-ness of the list fields). No function of the code
  computes it; the predicate states what the specification calls a plan.
\<close>

fun isArray :: "json option \<Rightarrow> bool" where
  "isArray (Some (JArray vs)) = True"
| "isArray _ = False"

definition planShape :: "json \<Rightarrow> bool" where
  "planShape v \<longleftrightarrow>
     isArray (getMember (str ''workout_plan'') v) \<and> isArray (getMember (str ''diet_plan'') v)
     \<and> getMember (str ''summary'') v \<noteq> None"

text \<open>
  The entries of the specification's data model (section 3), every field present and
  filled in.
\<close>

fun populatedString :: "json option \<Rightarrow> bool" where
  "populatedString (Some (JString s)) = (s \<noteq> [])"
| "populatedString _ = False"

fun populatedNumber :: "json option \<Rightarrow> bool" where
  "populatedNumber (Some (JNumber x)) = (0 \<le> x)"
| "populatedNumber _ = False"

definition completeExercise :: "json \<Rightarrow> bool" where
  "completeExercise e \<longleftrightarrow>
     populatedString (getMember (str ''name'') e) \<and> populatedString (getMember (str ''sets'') e)
     \<and> populatedString (getMember (str ''reps'') e) \<and> populatedString (getMember (str ''tips'') e)"

fun populatedExercises :: "json option \<Rightarrow> bool" where
  "populatedExercises (Some (JArray es)) = (es \<noteq> [] \<and> list_all completeExercise es)"
| "populatedExercises _ = False"

definition completeWorkoutDay :: "json \<Rightarrow> bool" where
  "completeWorkoutDay d \<longleftrightarrow>
     populatedString (getMember (str ''day'') d) \<and> populatedString (getMember (str ''focus'') d)
     \<and> populatedExercises (getMember (str ''exercises'') d)"

definition completeMeal :: "json \<Rightarrow> bool" where
  "completeMeal m \<longleftrightarrow>
     populatedString (getMember (str ''meal'') m) \<and> populatedString (getMember (str ''food'') m)
     \<and> populatedNumber (getMember (str ''calories'') m)
     \<and> populatedString (getMember (str ''protein'') m)
     \<and> populatedString (getMember (str ''carbs'') m)
     \<and> populatedString (getMember (str ''fats'') m)"

text \<open>
  The profile constraints of the specification's data model (section 3) on the name
  and the five numeric fields, read on the strings the form holds: a name of letters
  and white space with something in it, and decimal numerals of positive value, that
  is digits with at most one point among them and a digit that is not 0.
\<close>

definition validName :: "jsstring \<Rightarrow> bool" where
  "validName s \<longleftrightarrow> s \<noteq> [] \<and> list_all (\<lambda>c. is_letter c \<or> is_js_space c) s"

definition nonzero_digit :: "nat \<Rightarrow> bool" where
  "nonzero_digit c \<longleftrightarrow> ch CHR ''1'' \<le> c \<and> c \<le> ch CHR ''9''"

definition positiveNumber :: "jsstring \<Rightarrow> bool" where
  "positiveNumber s \<longleftrightarrow> matchesNumber s \<and> list_ex nonzero_digit s"

definition profileConstraints :: "userData \<Rightarrow> bool" where
  "profileConstraints u \<longleftrightarrow>
     validName (name u) \<and> positiveNumber (age u) \<and> positiveNumber (height u)
     \<and> positiveNumber (weight u) \<and> positiveNumber (sleepHours u)
     \<and> positiveNumber (waterIntake u)"

text \<open>The profile of the end-to-end scenarios of the specification (section 8).\<close>

definition anaProfile :: userData where
  "anaProfile =
     \<lparr>name = str ''Ana'', age = str ''30'', gender = str ''Female'', height = str ''165'',
      weight = str ''60'', goal = str ''Weight Loss'', fitnessLevel = str ''Beginner'',
      location = str ''Home'', dietPreference = str ''Vegetarian'', sleepHours = str ''7'',
      waterIntake = str ''2'', stressLevel = str ''Low''\<rparr>"

text \<open>An endpoint that answers every call with the same content, and one that always fails.\<close>

definition answering :: "jsstring \<Rightarrow> upstream" where
  "answering body = (\<lambda>h r. Inr (completion body))"

definition failing :: "int option \<Rightarrow> upstream" where
  "failing s = (\<lambda>h r. Inl (UpstreamError s))"

text \<open>What \<open>updateField\<close> keeps true of the data of the form.\<close>

definition wellFormed :: "userData \<Rightarrow> bool" where
  "wellFormed d \<longleftrightarrow>
     matchesName (name d) \<and> matchesNumber (age d) \<and> matchesNumber (height d)
     \<and> matchesNumber (weight d) \<and> matchesNumber (sleepHours d) \<and> matchesNumber (waterIntake d)"

text \<open>
  The literal chunks of a template, one before each substitution and one after the
  last, and the string that chunks and values make when they alternate.
\<close>

fun chunks :: "part list \<Rightarrow> jsstring list" where
  "chunks [] = [[]]"
| "chunks (Lit s # ps) = (case chunks ps of [] \<Rightarrow> [s] | c # cs \<Rightarrow> (s @ c) # cs)"
| "chunks (Sub f # ps) = [] # chunks ps"

fun weave :: "jsstring list \<Rightarrow> jsstring list \<Rightarrow> jsstring" where
  "weave [] vs = []"
| "weave (c # cs) [] = c"
| "weave (c # cs) (v # vs) = c @ v @ weave cs vs"

section \<open>Evaluation\<close>

lemmas json_eval =
  JSON_parse_def str_def ch_def is_json_ws_def is_digit_def lex_number_def digitsValue_def
  decimal_def escape_def hexval_def

lemma str_inject [simp]: "str a = str b \<longleftrightarrow> a = b"
  by (simp add: str_def inj_map_eq_map [OF inj_of_char])

lemma str_empty [simp]: "str s = [] \<longleftrightarrow> s = []"
  by (simp add: str_def)

lemma str_Nil [simp]: "str [] = []"
  by (simp add: str_def)

lemma firstContent_completion [simp]: "firstContent (completion body) = Inr (Some body)"
  by (simp add: firstContent_def completion_def)

lemma JSON_parse_empty: "JSON_parse [] = None"
  by (simp add: JSON_parse_def)

lemma JSON_parse_empty_object: "JSON_parse (str ''{}'') = Some (JObject [])"
  by (simp add: json_eval)

lemma JSON_parse_invalid: "JSON_parse (str ''{invalid json'') = None"
  by (simp add: json_eval)

lemma JSON_parse_null: "JSON_parse (str ''null'') = Some JNull"
  by (simp add: json_eval)

lemma JSON_parse_empty_array: "JSON_parse (str ''[]'') = Some (JArray [])"
  by (simp add: json_eval)

section \<open>Properties of retryWithBackoff\<close>

lemma retry_success:
  "operation w = (Inr v, w') \<Longrightarrow> retryWithBackoff operation retries delay w = (Inr v, w')"
  by (simp add: retryWithBackoff.simps)

lemma retry_exhausted:
  "operation w = (Inl e, w') \<Longrightarrow> retries \<le> 0 \<Longrightarrow>
   retryWithBackoff operation retries delay w = (Inl e, w')"
  by (simp add: retryWithBackoff.simps)

lemma retry_terminal:
  "operation w = (Inl e, w') \<Longrightarrow> \<not> isRetryable e \<Longrightarrow>
   retryWithBackoff operation retries delay w = (Inl e, w')"
  by (simp add: retryWithBackoff.simps)

lemma retry_again:
  "operation w = (Inl e, w') \<Longrightarrow> 0 < retries \<Longrightarrow> isRetryable e \<Longrightarrow>
   retryWithBackoff operation retries delay w =
   retryWithBackoff operation (retries - 1) (delay * 2)
     (w' @ [ConsoleLog (RetryNotice delay retries), SetTimeout delay])"
  by (subst retryWithBackoff.simps) simp

text \<open>The result and the final trace are those of the last attempt.\<close>

lemma retry_last_attempt:
  "retryWithBackoff operation retries delay w = (res, w') \<Longrightarrow> \<exists>w0. operation w0 = (res, w')"
proof (induction operation retries delay w rule: retryWithBackoff.induct)
  case (1 operation retries delay w)
  obtain r w1 where op: "operation w = (r, w1)"
    by (cases "operation w")
  show ?case
  proof (cases r)
    case (Inr v)
    with op "1.prems" show ?thesis
      by (auto simp: retry_success)
  next
    case (Inl e)
    show ?thesis
    proof (cases "retries \<le> 0 \<or> \<not> isRetryable e")
      case True
      with op Inl "1.prems" show ?thesis
        by (auto simp: retry_exhausted retry_terminal)
    next
      case False
      with op Inl "1.prems" "1.IH" show ?thesis
        by (auto simp: retry_again)
    qed
  qed
qed

lemma create_failure:
  "up w req = Inl e \<Longrightarrow> create up req w = (Inl e, w @ [ApiRequest req])"
  by (simp add: create_def)

lemma requestCount_append: "requestCount (xs @ ys) = requestCount xs + requestCount ys"
  by (induction xs rule: requestCount.induct) simp_all

lemma timeouts_append: "timeouts (xs @ ys) = timeouts xs @ timeouts ys"
  by (induction xs rule: timeouts.induct) simp_all

lemma zero_status_retryable: "isRetryable (UpstreamError (Some 0))"
  by (simp add: isRetryable_def)

lemma unauthorized_terminal: "\<not> isRetryable (UpstreamError (Some 401))"
  by (simp add: isRetryable_def)

text \<open>
  The schedule for any retry budget \<open>n\<close> and first delay \<open>d\<close>, when every attempt
  fails with a retryable error: \<open>n + 1\<close> requests, and the timers
  \<open>d, 2d, 4d, ...\<close>, one before each retry.
\<close>

lemma doubling_delays:
  "map (\<lambda>i. d * 2 ^ i) [0..<Suc n] = (d::int) # map (\<lambda>i. (d * 2) * 2 ^ i) [0..<n]"
proof -
  have "[0..<Suc n] = 0 # map Suc [0..<n]"
    by (simp add: upt_conv_Cons map_Suc_upt del: upt_Suc)
  then show ?thesis
    by (simp add: comp_def del: upt_Suc)
qed

lemma retry_schedule_general:
  assumes "\<And>h. \<exists>e. up h req = Inl e \<and> isRetryable e"
  shows "\<exists>e w'. retryWithBackoff (create up req) (int n) d w = (Inl e, w')
           \<and> requestCount w' = requestCount w + n + 1
           \<and> timeouts w' = timeouts w @ map (\<lambda>i. d * 2 ^ i) [0..<n]"
proof (induction n arbitrary: d w)
  case 0
  obtain e where "up w req = Inl e"
    using assms by blast
  then have "create up req w = (Inl e, w @ [ApiRequest req])"
    by (rule create_failure)
  then show ?case
    by (simp add: retry_exhausted requestCount_append timeouts_append)
next
  case (Suc n)
  obtain e where e: "up w req = Inl e" "isRetryable e"
    using assms by blast
  let ?w = "(w @ [ApiRequest req]) @ [ConsoleLog (RetryNotice d (int (Suc n))), SetTimeout d]"
  have "create up req w = (Inl e, w @ [ApiRequest req])"
    using e(1) by (rule create_failure)
  then have step: "retryWithBackoff (create up req) (int (Suc n)) d w =
              retryWithBackoff (create up req) (int n) (d * 2) ?w"
    using retry_again [of "create up req" w e "w @ [ApiRequest req]" "int (Suc n)" d] e(2)
    by simp
  from Suc.IH [of "d * 2" ?w] obtain e' w' where
    "retryWithBackoff (create up req) (int n) (d * 2) ?w = (Inl e', w')"
    "requestCount w' = requestCount ?w + n + 1"
    "timeouts w' = timeouts ?w @ map (\<lambda>i. (d * 2) * 2 ^ i) [0..<n]"
    by blast
  then show ?case
    unfolding step doubling_delays
    by (simp add: requestCount_append timeouts_append)
qed

section \<open>Claims about the retry executor\<close>

text \<open>
  C4. When every call of the endpoint fails with a retryable error, the executor under
  the policy of \<open>generateFitnessPlan\<close> (2 retries, first delay 1000 ms) issues exactly
  three requests, one after the other, sets a timer of 1000 ms before the second and
  of 2000 ms before the third, and then rethrows the error of the third request.
\<close>

theorem retry_three_attempts_then_escalates:
  assumes "\<forall>h. \<exists>e. up h req = Inl e \<and> isRetryable e"
  shows "\<exists>e1 e2 e3.
           retryWithBackoff (create up req) 2 1000 w =
             (Inl e3,
              w @ [ApiRequest req, ConsoleLog (RetryNotice 1000 2), SetTimeout 1000,
                   ApiRequest req, ConsoleLog (RetryNotice 2000 1), SetTimeout 2000,
                   ApiRequest req])
         \<and> up w req = Inl e1
         \<and> up (w @ [ApiRequest req, ConsoleLog (RetryNotice 1000 2), SetTimeout 1000]) req = Inl e2
         \<and> up (w @ [ApiRequest req, ConsoleLog (RetryNotice 1000 2), SetTimeout 1000,
                     ApiRequest req, ConsoleLog (RetryNotice 2000 1), SetTimeout 2000]) req = Inl e3"
proof -
  let ?w1 = "w @ [ApiRequest req, ConsoleLog (RetryNotice 1000 2), SetTimeout 1000]"
  let ?w2 = "?w1 @ [ApiRequest req, ConsoleLog (RetryNotice 2000 1), SetTimeout 2000]"
  obtain e1 where e1: "up w req = Inl e1" "isRetryable e1"
    using assms by blast
  obtain e2 where e2: "up ?w1 req = Inl e2" "isRetryable e2"
    using assms by blast
  obtain e3 where e3: "up ?w2 req = Inl e3"
    using assms by blast
  have c1: "create up req w = (Inl e1, w @ [ApiRequest req])"
    using e1(1) by (rule create_failure)
  have c2: "create up req ?w1 = (Inl e2, ?w1 @ [ApiRequest req])"
    using e2(1) by (rule create_failure)
  have c3: "create up req ?w2 = (Inl e3, ?w2 @ [ApiRequest req])"
    using e3 by (rule create_failure)
  have "retryWithBackoff (create up req) 2 1000 w = retryWithBackoff (create up req) 1 2000 ?w1"
    using retry_again [of "create up req" w e1 _ 2 1000] c1 e1(2) by simp
  also have "\<dots> = retryWithBackoff (create up req) 0 4000 ?w2"
    using retry_again [of "create up req" ?w1 e2 _ 1 2000] c2 e2(2) by simp
  also have "\<dots> = (Inl e3, ?w2 @ [ApiRequest req])"
    using retry_exhausted [of "create up req" ?w2 e3 _ 0 4000] c3 by simp
  finally show ?thesis
    using e1(1) e2(1) e3 by simp
qed

theorem retry_three_attempts_witness:
  "retryWithBackoff (create (failing (Some 500)) (planRequest anaProfile)) 2 1000 [] =
   (Inl (UpstreamError (Some 500)),
    [ApiRequest (planRequest anaProfile), ConsoleLog (RetryNotice 1000 2), SetTimeout 1000,
     ApiRequest (planRequest anaProfile), ConsoleLog (RetryNotice 2000 1), SetTimeout 2000,
     ApiRequest (planRequest anaProfile)])"
  using retry_three_attempts_then_escalates
    [of "failing (Some 500)" "planRequest anaProfile" "[]"]
  by (simp add: isRetryable_def failing_def)

text \<open>
  C5. An error is retryable exactly when it has no status code, a status of at least
  500, or the status 429. It has no status code when its \<open>status\<close> is undefined, or
  is 0: that is no HTTP status code, and \<open>!error.status\<close> takes it for a missing one.
  A retryable error raised while a retry is left is retried: the executor logs, sets
  the timer and goes on with one retry less and the delay doubled. An error with any
  other status is rethrown after the single request that raised it, whatever the
  retry budget; so is HTTP 401.
\<close>

theorem retry_classification:
  "(isRetryable e \<longleftrightarrow>
      (status e = None \<or> status e = Some 0)
      \<or> (\<exists>s. status e = Some s \<and> (500 \<le> s \<or> s = 429)))
   \<and> (up w req = Inl e \<and> isRetryable e \<and> 0 < retries \<longrightarrow>
        retryWithBackoff (create up req) retries delay w =
          retryWithBackoff (create up req) (retries - 1) (delay * 2)
            (w @ [ApiRequest req, ConsoleLog (RetryNotice delay retries), SetTimeout delay]))
   \<and> (up w req = Inl e \<and> \<not> isRetryable e \<longrightarrow>
        retryWithBackoff (create up req) retries delay w = (Inl e, w @ [ApiRequest req]))
   \<and> (up w req = Inl (UpstreamError (Some 401)) \<longrightarrow>
        retryWithBackoff (create up req) retries delay w =
          (Inl (UpstreamError (Some 401)), w @ [ApiRequest req]))"
proof (intro conjI impI)
  show "isRetryable e \<longleftrightarrow>
      (status e = None \<or> status e = Some 0)
      \<or> (\<exists>s. status e = Some s \<and> (500 \<le> s \<or> s = 429))"
    by (cases "status e") (auto simp: isRetryable_def)
next
  assume retry: "up w req = Inl e \<and> isRetryable e \<and> 0 < retries"
  then have "create up req w = (Inl e, w @ [ApiRequest req])"
    by (simp add: create_def)
  then show "retryWithBackoff (create up req) retries delay w =
      retryWithBackoff (create up req) (retries - 1) (delay * 2)
        (w @ [ApiRequest req, ConsoleLog (RetryNotice delay retries), SetTimeout delay])"
    using retry retry_again [of "create up req" w e "w @ [ApiRequest req]" retries delay]
    by simp
next
  assume "up w req = Inl e \<and> \<not> isRetryable e"
  then show "retryWithBackoff (create up req) retries delay w = (Inl e, w @ [ApiRequest req])"
    by (simp add: retry_terminal create_def)
next
  assume "up w req = Inl (UpstreamError (Some 401))"
  then show "retryWithBackoff (create up req) retries delay w =
      (Inl (UpstreamError (Some 401)), w @ [ApiRequest req])"
    using unauthorized_terminal by (simp add: retry_terminal create_def)
qed

theorem retry_classification_witness:
  "\<not> isRetryable (UpstreamError (Some 401))
   \<and> retryWithBackoff (create (failing (Some 401)) (planRequest anaProfile)) 2 1000 [] =
     (Inl (UpstreamError (Some 401)), [ApiRequest (planRequest anaProfile)])
   \<and> isRetryable (UpstreamError (Some 500))
   \<and> retryWithBackoff (create (failing (Some 500)) (planRequest anaProfile)) 2 1000 [] =
     retryWithBackoff (create (failing (Some 500)) (planRequest anaProfile)) 1 2000
       [ApiRequest (planRequest anaProfile), ConsoleLog (RetryNotice 1000 2), SetTimeout 1000]"
  using retry_classification
    [of "UpstreamError (Some 401)" "failing (Some 401)" "[]" "planRequest anaProfile" 2 1000]
    retry_classification
    [of "UpstreamError (Some 500)" "failing (Some 500)" "[]" "planRequest anaProfile" 2 1000]
  by (simp add: failing_def)

text \<open>
  C8. An error that is not retryable, or one raised when no retry is left, is rethrown
  to the caller as it is, after that attempt. Whatever \<open>retryWithBackoff\<close> returns or
  throws is the outcome of one call of the operation it was given: it makes up no
  value of its own.
\<close>

theorem retry_propagates_failure:
  "(operation w = (Inl e, w') \<and> (retries \<le> 0 \<or> \<not> isRetryable e) \<longrightarrow>
      retryWithBackoff operation retries delay w = (Inl e, w'))
   \<and> (retryWithBackoff operation retries delay w = (res, w'') \<longrightarrow>
        (\<exists>w0. operation w0 = (res, w'')))"
  using retry_exhausted retry_terminal retry_last_attempt by metis

theorem retry_propagates_failure_witness:
  "retryWithBackoff (create (failing (Some 403)) (planRequest anaProfile)) 2 1000 [] =
   (Inl (UpstreamError (Some 403)), [ApiRequest (planRequest anaProfile)])
   \<and> (\<exists>w0. create (failing (Some 403)) (planRequest anaProfile) w0 =
            (Inl (UpstreamError (Some 403)), [ApiRequest (planRequest anaProfile)]))"
  using retry_propagates_failure
    [of "create (failing (Some 403)) (planRequest anaProfile)"
        "[]" "UpstreamError (Some 403)" "[ApiRequest (planRequest anaProfile)]"
        2 1000 "Inl (UpstreamError (Some 403))" "[ApiRequest (planRequest anaProfile)]"]
  by (simp add: create_def isRetryable_def failing_def)

section \<open>Claims about the fallback plan and the response validation\<close>

text \<open>
  C7. The fallback plan is a constant. Its \<open>workout_plan\<close> is an array of exactly
  seven entries whose days are Monday to Sunday in this order, its \<open>diet_plan\<close> an
  array of exactly four entries whose meals are Breakfast, Lunch, Snack and Dinner,
  and every entry has all its fields filled in: day, focus and a non-empty list of
  exercises with name, sets, reps and tips; meal, food, calories, protein, carbs and
  fats.
\<close>

theorem fallback_plan_complete:
  "\<exists>days meals.
     getMember (str ''workout_plan'') fallbackPlan = Some (JArray days)
   \<and> length days = 7
   \<and> map (getMember (str ''day'')) days =
       map (\<lambda>d. Some (JString (str d)))
         [''Monday'', ''Tuesday'', ''Wednesday'', ''Thursday'', ''Friday'', ''Saturday'', ''Sunday'']
   \<and> list_all completeWorkoutDay days
   \<and> getMember (str ''diet_plan'') fallbackPlan = Some (JArray meals)
   \<and> length meals = 4
   \<and> map (getMember (str ''meal'')) meals =
       map (\<lambda>m. Some (JString (str m))) [''Breakfast'', ''Lunch'', ''Snack'', ''Dinner'']
   \<and> list_all completeMeal meals"
  by (simp add: fallbackPlan_def workoutDay_def exercise_def mealEntry_def
        completeWorkoutDay_def completeExercise_def completeMeal_def)

section \<open>Properties of the response validation\<close>

lemma validate_success:
  "firstContent r = Inr (Some body) \<Longrightarrow> body \<noteq> [] \<Longrightarrow> JSON_parse body = Some v \<Longrightarrow>
   validateOrFallback (Inr r) w = (Inr (Generated, v), w)"
  by (simp add: validateOrFallback_def parseContent_def)

lemma validate_empty:
  "firstContent r = Inr (Some []) \<Longrightarrow>
   validateOrFallback (Inr r) w =
     (Inr (Fallback, fallbackPlan),
      w @ [ConsoleError (PlanFailure EmptyResponseError), ConsoleWarn FallbackWarning])"
  by (simp add: validateOrFallback_def parseContent_def catchBlock_def)

lemma validate_unparseable:
  "firstContent r = Inr (Some body) \<Longrightarrow> body \<noteq> [] \<Longrightarrow> JSON_parse body = None \<Longrightarrow>
   validateOrFallback (Inr r) w =
     (Inr (Fallback, fallbackPlan),
      w @ [ConsoleError (PlanFailure SyntaxError), ConsoleWarn FallbackWarning])"
  by (simp add: validateOrFallback_def parseContent_def catchBlock_def)

lemma validate_error:
  "validateOrFallback (Inl e) w =
     (Inr (Fallback, fallbackPlan), w @ [ConsoleError (PlanFailure e), ConsoleWarn FallbackWarning])"
  by (simp add: validateOrFallback_def catchBlock_def)

text \<open>The step never throws, and returns either what \<open>JSON.parse\<close> gave or the fallback.\<close>

lemma validate_total:
  "\<exists>tag v w'. validateOrFallback outcome w = (Inr (tag, v), w')
     \<and> ((tag = Fallback \<and> v = fallbackPlan)
        \<or> (tag = Generated \<and> w' = w
            \<and> (\<exists>r body. outcome = Inr r \<and> firstContent r = Inr (Some body) \<and> body \<noteq> []
                  \<and> JSON_parse body = Some v)))"
  by (auto simp: validateOrFallback_def parseContent_def catchBlock_def
           split: sum.splits option.splits)

lemma plan_example_parse:
  \<open>JSON_parse (str ''{"workout_plan":[{"day":"Monday"}],"diet_plan":[],"summary":{},"note":"x"}'') =
   Some (JObject [(str ''workout_plan'', JArray [JObject [(str ''day'', JString (str ''Monday''))]]),
                  (str ''diet_plan'', JArray []), (str ''summary'', JObject []),
                  (str ''note'', JString (str ''x''))])\<close>
  by (simp add: json_eval)

text \<open>
  C3. A response whose content (that of the message of its first choice) is
  well-formed JSON for an object of the plan shape, extra keys or not, comes back as
  parsed, unchanged and tagged Generated; nothing is logged.
\<close>

theorem well_formed_plan_returned_unmodified:
  assumes "firstContent r = Inr (Some body)"
    and "JSON_parse body = Some plan"
    and "planShape plan"
  shows "validateOrFallback (Inr r) w = (Inr (Generated, plan), w)"
proof -
  from assms(2) have "body \<noteq> []"
    using JSON_parse_empty by auto
  with assms(1) show ?thesis
    using assms(2) by (rule validate_success)
qed

theorem well_formed_plan_witness:
  \<open>validateOrFallback
     (Inr (completion (str
        ''{"workout_plan":[{"day":"Monday"}],"diet_plan":[],"summary":{},"note":"x"}'')))
     [] =
   (Inr (Generated,
         JObject [(str ''workout_plan'', JArray [JObject [(str ''day'', JString (str ''Monday''))]]),
                  (str ''diet_plan'', JArray []), (str ''summary'', JObject []),
                  (str ''note'', JString (str ''x''))]),
    [])\<close>
  using well_formed_plan_returned_unmodified
    [OF firstContent_completion plan_example_parse, of "[]"]
  by (simp add: planShape_def)

text \<open>
  C2, as the code has it. For the content \<open>""\<close> and for \<open>"{invalid json"\<close> the
  step logs the error and the warning and returns the fallback plan, tagged Fallback.
  For \<open>"{}"\<close> it returns the parsed empty object, tagged Generated, and logs
  nothing: the only checks are that the content is not empty and that it parses; no
  key and no list field is looked at. So every non-empty content that parses is
  returned as parsed.
\<close>

theorem validation_checks_syntax_only:
  "validateOrFallback (Inr (completion (str ''''))) w =
     (Inr (Fallback, fallbackPlan),
      w @ [ConsoleError (PlanFailure EmptyResponseError), ConsoleWarn FallbackWarning])
   \<and> validateOrFallback (Inr (completion (str ''{invalid json''))) w =
     (Inr (Fallback, fallbackPlan),
      w @ [ConsoleError (PlanFailure SyntaxError), ConsoleWarn FallbackWarning])
   \<and> validateOrFallback (Inr (completion (str ''{}''))) w = (Inr (Generated, JObject []), w)
   \<and> (firstContent r = Inr (Some body) \<and> body \<noteq> [] \<and> JSON_parse body = Some v \<longrightarrow>
        validateOrFallback (Inr r) w = (Inr (Generated, v), w))"
  using validate_empty [of "completion (str '''')" w]
    validate_unparseable [OF firstContent_completion _ JSON_parse_invalid, of w]
    validate_success [OF firstContent_completion _ JSON_parse_empty_object, of w]
    validate_success [of r body v w]
  by simp

theorem validation_checks_syntax_only_witness:
  "validateOrFallback (Inr (completion (str ''[]''))) [] = (Inr (Generated, JArray []), [])
   \<and> \<not> planShape (JArray [])"
  using validation_checks_syntax_only [of "[]" "completion (str ''[]'')" "str ''[]''" "JArray []"]
    JSON_parse_empty_array
  by (simp add: planShape_def)

theorem empty_object_not_replaced:
  "validateOrFallback (Inr (completion (str ''{}''))) [] = (Inr (Generated, JObject []), [])
   \<and> (Generated, JObject []) \<noteq> (Fallback, fallbackPlan)
   \<and> \<not> planShape (JObject [])"
  using validate_success [OF firstContent_completion _ JSON_parse_empty_object, of "[]"]
  by (simp add: planShape_def)

section \<open>Claims about generateFitnessPlan\<close>

lemma generate_answered:
  "up w (planRequest u) = Inr r \<Longrightarrow>
   generateFitnessPlan up u w = validateOrFallback (Inr r) (w @ [ApiRequest (planRequest u)])"
  by (simp add: generateFitnessPlan_def retry_success [of _ _ r "w @ [ApiRequest (planRequest u)]"]
        create_def)

lemma generate_terminal:
  "up w (planRequest u) = Inl e \<Longrightarrow> \<not> isRetryable e \<Longrightarrow>
   generateFitnessPlan up u w = validateOrFallback (Inl e) (w @ [ApiRequest (planRequest u)])"
  by (simp add: generateFitnessPlan_def retry_terminal [of _ _ e "w @ [ApiRequest (planRequest u)]"]
        create_def)

text \<open>
  C1, as the code has it. Whatever the profile and whatever the endpoint does,
  \<open>generateFitnessPlan\<close> returns and does not throw. What it returns is either the
  fallback plan, or the value \<open>JSON.parse\<close> gave for the non-empty content of the
  first choice of a response of the endpoint; that value is not checked to be a plan.
\<close>

theorem generateFitnessPlan_never_throws:
  "\<exists>tag v w'. generateFitnessPlan up u w = (Inr (tag, v), w')
     \<and> ((tag = Fallback \<and> v = fallbackPlan)
        \<or> (tag = Generated
            \<and> (\<exists>h r body. up h (planRequest u) = Inr r \<and> firstContent r = Inr (Some body)
                  \<and> body \<noteq> [] \<and> JSON_parse body = Some v)))"
proof -
  obtain outcome w1 where
    run: "retryWithBackoff (create up (planRequest u)) 2 1000 w = (outcome, w1)"
    by (cases "retryWithBackoff (create up (planRequest u)) 2 1000 w")
  then obtain w0 where "create up (planRequest u) w0 = (outcome, w1)"
    using retry_last_attempt by blast
  then have outcome: "outcome = up w0 (planRequest u)"
    by (simp add: create_def)
  from validate_total [of outcome w1] obtain tag v w' where
    res: "validateOrFallback outcome w1 = (Inr (tag, v), w')" and
    alt: "(tag = Fallback \<and> v = fallbackPlan)
        \<or> (tag = Generated \<and> w' = w1
            \<and> (\<exists>r body. outcome = Inr r \<and> firstContent r = Inr (Some body) \<and> body \<noteq> []
                  \<and> JSON_parse body = Some v))"
    by blast
  have "generateFitnessPlan up u w = (Inr (tag, v), w')"
    by (simp add: generateFitnessPlan_def run res)
  moreover from alt outcome have "(tag = Fallback \<and> v = fallbackPlan)
        \<or> (tag = Generated
            \<and> (\<exists>h r body. up h (planRequest u) = Inr r \<and> firstContent r = Inr (Some body)
                  \<and> body \<noteq> [] \<and> JSON_parse body = Some v))"
    by metis
  ultimately show ?thesis
    by blast
qed

theorem generateFitnessPlan_never_throws_witness:
  "generateFitnessPlan (failing (Some 401)) anaProfile [] =
     (Inr (Fallback, fallbackPlan),
      [ApiRequest (planRequest anaProfile), ConsoleError (PlanFailure (UpstreamError (Some 401))),
       ConsoleWarn FallbackWarning])"
  using generateFitnessPlan_never_throws [of "failing (Some 401)" anaProfile "[]"]
    generate_terminal [of "failing (Some 401)" "[]" anaProfile "UpstreamError (Some 401)"]
    unauthorized_terminal
  by (simp add: failing_def validate_error)

theorem null_content_returned_as_plan:
  "generateFitnessPlan (answering (str ''null'')) anaProfile [] =
     (Inr (Generated, JNull), [ApiRequest (planRequest anaProfile)])
   \<and> \<not> planShape JNull"
  using generate_answered [of "answering (str ''null'')" "[]" anaProfile]
    validate_success [OF firstContent_completion _ JSON_parse_null]
  by (simp add: answering_def planShape_def)

section \<open>Claims about the prompt\<close>

lemma plan_substitutions:
  "substitutions planTemplate =
     [Name, Age, Gender, Weight, Height, FitnessLevel, Goal, Location, DietPreference]"
  by (simp add: planTemplate_def)

text \<open>A rendered template depends on the profile through its substitutions only.\<close>

lemma render_depends_on_substitutions:
  "list_all (\<lambda>f. getField f u = getField f u') (substitutions template) \<Longrightarrow>
   render template u = render template u'"
  by (induction template rule: substitutions.induct) (simp_all add: render_def)

lemma chunks_not_empty: "chunks ps \<noteq> []"
  by (induction ps rule: chunks.induct) (auto split: list.splits)

lemma weave_prepend: "weave ((s @ c) # cs) vs = s @ weave (c # cs) vs"
  by (cases vs) simp_all

text \<open>A rendered template is its literal chunks with the values of its substitutions between them.\<close>

lemma render_weave:
  "render template u =
     weave (chunks template) (map (\<lambda>f. getField f u) (substitutions template))"
proof (induction template rule: substitutions.induct)
  case 1
  show ?case
    by (simp add: render_def)
next
  case (2 f ps)
  then show ?case
    by (simp add: render_def)
next
  case (3 s ps)
  obtain c cs where "chunks ps = c # cs"
    using chunks_not_empty [of ps] by (cases "chunks ps") auto
  with 3 show ?case
    by (simp add: render_def weave_prepend)
qed

lemma plan_chunks:
  "\<exists>l0 l1 l2 l3 l4 l5 l6 l7 l8 l9. chunks planTemplate = [l0, l1, l2, l3, l4, l5, l6, l7, l8, l9]"
  by (simp add: planTemplate_def)

text \<open>
  C6, as the code has it. The request is a function of the profile (equal profiles
  give equal requests); its prompt is the template literal rendered on the profile,
  and the literal substitutes nine fields, each exactly once: name, age, gender,
  weight, height, fitnessLevel, goal, location and dietPreference. sleepHours,
  waterIntake and stressLevel are not substituted: profiles that agree on the nine
  fields give the same request. So the prompt of every profile is ten fixed pieces of
  text with the values of name, age, gender, weight, height, fitnessLevel, goal,
  location and dietPreference between them, in this order.
\<close>

theorem prompt_embeds_nine_fields_once:
  "(u = u' \<longrightarrow> planRequest u = planRequest u')
   \<and> prompt (planRequest u) = render planTemplate u
   \<and> count_list (substitutions planTemplate) f =
       (if f = SleepHours \<or> f = WaterIntake \<or> f = StressLevel then 0 else 1)
   \<and> (name u = name u' \<and> age u = age u' \<and> gender u = gender u' \<and> weight u = weight u'
        \<and> height u = height u' \<and> fitnessLevel u = fitnessLevel u' \<and> goal u = goal u'
        \<and> location u = location u' \<and> dietPreference u = dietPreference u'
        \<longrightarrow> planRequest u = planRequest u')
   \<and> (\<exists>l0 l1 l2 l3 l4 l5 l6 l7 l8 l9. \<forall>p.
         prompt (planRequest p) =
           l0 @ name p @ l1 @ age p @ l2 @ gender p @ l3 @ weight p @ l4 @ height p
           @ l5 @ fitnessLevel p @ l6 @ goal p @ l7 @ location p @ l8 @ dietPreference p @ l9)"
proof (intro conjI impI)
  obtain l0 l1 l2 l3 l4 l5 l6 l7 l8 l9 where
    "chunks planTemplate = [l0, l1, l2, l3, l4, l5, l6, l7, l8, l9]"
    using plan_chunks by blast
  then have "\<forall>p. prompt (planRequest p) =
           l0 @ name p @ l1 @ age p @ l2 @ gender p @ l3 @ weight p @ l4 @ height p
           @ l5 @ fitnessLevel p @ l6 @ goal p @ l7 @ location p @ l8 @ dietPreference p @ l9"
    by (simp add: planRequest_def render_weave plan_substitutions)
  then show "\<exists>l0 l1 l2 l3 l4 l5 l6 l7 l8 l9. \<forall>p.
         prompt (planRequest p) =
           l0 @ name p @ l1 @ age p @ l2 @ gender p @ l3 @ weight p @ l4 @ height p
           @ l5 @ fitnessLevel p @ l6 @ goal p @ l7 @ location p @ l8 @ dietPreference p @ l9"
    by blast
next
  show "count_list (substitutions planTemplate) f =
       (if f = SleepHours \<or> f = WaterIntake \<or> f = StressLevel then 0 else 1)"
    unfolding plan_substitutions by (cases f) simp_all
next
  assume "name u = name u' \<and> age u = age u' \<and> gender u = gender u' \<and> weight u = weight u'
        \<and> height u = height u' \<and> fitnessLevel u = fitnessLevel u' \<and> goal u = goal u'
        \<and> location u = location u' \<and> dietPreference u = dietPreference u'"
  then have "render planTemplate u = render planTemplate u'"
    by (intro render_depends_on_substitutions) (simp add: plan_substitutions)
  then show "planRequest u = planRequest u'"
    by (simp add: planRequest_def)
qed (simp_all add: planRequest_def)

theorem prompt_embeds_nine_fields_witness:
  "count_list (substitutions planTemplate) Name = 1
   \<and> count_list (substitutions planTemplate) WaterIntake = 0
   \<and> planRequest (anaProfile\<lparr>waterIntake := str ''3'', stressLevel := str ''High''\<rparr>) =
       planRequest anaProfile"
  using prompt_embeds_nine_fields_once [of anaProfile
      "anaProfile\<lparr>waterIntake := str ''3'', stressLevel := str ''High''\<rparr>" Name]
    prompt_embeds_nine_fields_once [of
      "anaProfile\<lparr>waterIntake := str ''3'', stressLevel := str ''High''\<rparr>" anaProfile WaterIntake]
  by simp

theorem prompt_omits_sleep_hours:
  "count_list (substitutions planTemplate) SleepHours = 0
   \<and> sleepHours (anaProfile\<lparr>sleepHours := str ''4''\<rparr>) \<noteq> sleepHours anaProfile
   \<and> planRequest (anaProfile\<lparr>sleepHours := str ''4''\<rparr>) = planRequest anaProfile"
proof -
  have "render planTemplate (anaProfile\<lparr>sleepHours := str ''4''\<rparr>) = render planTemplate anaProfile"
    by (intro render_depends_on_substitutions) (simp add: plan_substitutions)
  then show ?thesis
    by (simp add: plan_substitutions planRequest_def anaProfile_def)
qed

section \<open>Claims about generateMotivationQuote\<close>

text \<open>
  C10. \<open>generateMotivationQuote\<close> returns a string and does not throw, whatever the
  endpoint does; when the call with its two retries ends in an error, the string is
  the fixed sentence.
\<close>

theorem generateMotivationQuote_never_rejects:
  "\<exists>quote w'. generateMotivationQuote up u w = (Inr quote, w')
     \<and> (\<forall>e w1. retryWithBackoff (quoteOperation up u) 2 1000 w = (Inl e, w1) \<longrightarrow>
           quote = str ''Consistency is the key to progress. Keep showing up!'')"
  by (cases "retryWithBackoff (quoteOperation up u) 2 1000 w")
     (auto simp: generateMotivationQuote_def fallbackQuote_def split: sum.splits)

lemma quote_operation_terminal:
  "quoteOperation (failing (Some 401)) u w =
     (Inl (UpstreamError (Some 401)),
      w @ [ConsoleLog (QuoteStart (name u) (goal u)), ApiRequest (quoteRequest u)])"
  by (simp add: quoteOperation_def create_def failing_def)

lemma quote_retry_terminal:
  "retryWithBackoff (quoteOperation (failing (Some 401)) u) 2 1000 w =
     (Inl (UpstreamError (Some 401)),
      w @ [ConsoleLog (QuoteStart (name u) (goal u)), ApiRequest (quoteRequest u)])"
  by (rule retry_terminal [OF quote_operation_terminal unauthorized_terminal])

theorem generateMotivationQuote_witness:
  "generateMotivationQuote (failing (Some 401)) anaProfile [] =
     (Inr (str ''Consistency is the key to progress. Keep showing up!''),
      [ConsoleLog (QuoteStart (str ''Ana'') (str ''Weight Loss'')),
       ApiRequest (quoteRequest anaProfile),
       ConsoleError (QuoteFailure (UpstreamError (Some 401)))])"
  using generateMotivationQuote_never_rejects [of "failing (Some 401)" anaProfile "[]"]
    quote_retry_terminal [of anaProfile "[]"]
  by (simp add: generateMotivationQuote_def fallbackQuote_def anaProfile_def)

section \<open>What the form keeps true of its data\<close>

lemma matchesNumber_empty: "matchesNumber []"
  by (simp add: matchesNumber_def)

lemma wellFormed_initial: "wellFormed initialFormData"
  by (simp add: wellFormed_def initialFormData_def matchesName_def matchesNumber_def)

lemma wellFormed_updateField: "wellFormed d \<Longrightarrow> wellFormed (updateField f v d)"
  by (cases f)
     (auto simp: wellFormed_def updateField_def numericFields_def matchesName_def
        matchesNumber_empty)

lemma wellFormed_perform: "wellFormed (formData s) \<Longrightarrow> wellFormed (formData (perform s a))"
  by (cases a)
     (simp_all add: wellFormed_updateField goToNextStep_def goToPreviousStep_def)

text \<open>
  Whatever happens, the name holds letters and white space only and the numeric fields
  hold digits with at most one point: \<open>updateField\<close> lets nothing else in.
\<close>

lemma stored_strings_well_formed: "wellFormed (formData (session actions))"
proof (induction actions rule: rev_induct)
  case Nil
  show ?case
    by (simp add: session_def initialForm_def wellFormed_initial)
next
  case (snoc a actions)
  then show ?case
    by (simp add: session_def wellFormed_perform)
qed

section \<open>parseFloat on the strings of the numeric inputs\<close>

lemma digit_above_zero: "is_digit c \<Longrightarrow> ch CHR ''0'' < c \<longleftrightarrow> nonzero_digit c"
  unfolding is_digit_def nonzero_digit_def ch_def by simp arith

lemma digits_foldl_positive:
  "list_all is_digit ds \<Longrightarrow>
   0 < foldl (\<lambda>a c. a * 10 + (c - ch CHR ''0'')) a ds \<longleftrightarrow> 0 < a \<or> list_ex nonzero_digit ds"
  by (induction ds arbitrary: a) (simp_all add: digit_above_zero disj_assoc)

lemma digitsValue_positive:
  "list_all is_digit ds \<Longrightarrow> 0 < digitsValue ds \<longleftrightarrow> list_ex nonzero_digit ds"
  by (simp add: digitsValue_def digits_foldl_positive)

lemma decimal_positive: "0 < decimal False m e \<longleftrightarrow> 0 < m"
  by (simp add: decimal_def zero_less_mult_iff zero_less_divide_iff)

lemma exponentPart_Nil: "exponentPart [] = 0"
  by (simp add: exponentPart_def)

lemma all_digits:
  "list_all is_digit ds \<Longrightarrow> takeWhile is_digit ds = ds \<and> dropWhile is_digit ds = []"
  by (simp add: list_all_iff)

lemma point_no_digit: "\<not> is_digit (ch CHR ''.'')" "\<not> nonzero_digit (ch CHR ''.'')"
  by (simp_all add: is_digit_def nonzero_digit_def ch_def)

lemma unsignedDecimal_digits:
  "list_all is_digit ds \<Longrightarrow>
   unsignedDecimal negative ds = (if ds = [] then NaN else Num (decimal negative (digitsValue ds) 0))"
  by (simp add: unsignedDecimal_def all_digits exponentPart_Nil)

lemma unsignedDecimal_point:
  assumes "list_all is_digit ip" and "list_all is_digit fp"
  shows "unsignedDecimal negative (ip @ ch CHR ''.'' # fp) =
           (if ip = [] \<and> fp = [] then NaN
            else Num (decimal negative (digitsValue (ip @ fp)) (- int (length fp))))"
proof -
  have "takeWhile is_digit (ip @ ch CHR ''.'' # fp) = ip"
    and "dropWhile is_digit (ip @ ch CHR ''.'' # fp) = ch CHR ''.'' # fp"
    using assms(1) by (simp_all add: list_all_iff point_no_digit)
  then show ?thesis
    by (simp add: unsignedDecimal_def all_digits [OF assms(2)] exponentPart_Nil)
qed


lemma matchesNumber_shape:
  assumes "matchesNumber s"
  shows "list_all is_digit s
         \<or> (\<exists>ip fp. s = ip @ ch CHR ''.'' # fp \<and> list_all is_digit ip \<and> list_all is_digit fp)"
proof (cases "dropWhile is_digit s")
  case Nil
  then show ?thesis
    by (simp add: list_all_iff dropWhile_eq_Nil_conv)
next
  case (Cons c r)
  with assms have "c = ch CHR ''.''" and "list_all is_digit r"
    by (simp_all add: matchesNumber_def)
  moreover have "s = takeWhile is_digit s @ c # r"
    using Cons takeWhile_dropWhile_id [of is_digit s] by simp
  moreover have "list_all is_digit (takeWhile is_digit s)"
    by (simp add: list_all_iff) (meson set_takeWhileD)
  ultimately show ?thesis
    by blast
qed

lemma head_facts:
  assumes "is_digit c \<or> c = ch CHR ''.''"
  shows "\<not> is_js_space c" "c \<noteq> ch CHR ''-''" "c \<noteq> ch CHR ''+''" "c \<noteq> 73"
  using assms by (auto simp: is_digit_def is_js_space_def ch_def)

lemma Infinity_head: "str ''Infinity'' = 73 # str ''nfinity''"
  by (simp add: str_def)

lemma parseFloat_unsigned:
  assumes "is_digit c \<or> c = ch CHR ''.''"
  shows "parseFloat (c # cs) = unsignedDecimal False (c # cs)"
  by (simp add: parseFloat_def head_facts [OF assms] Infinity_head)

text \<open>
  On the strings the numeric inputs can hold, \<open>parseFloat(s) > 0\<close> says that some
  digit is not 0.
\<close>

lemma parseFloat_positive_iff:
  assumes "matchesNumber s"
  shows "js_positive (parseFloat s) \<longleftrightarrow> list_ex nonzero_digit s"
proof -
  consider (digits) "list_all is_digit s"
    | (point) ip fp where "s = ip @ ch CHR ''.'' # fp" "list_all is_digit ip" "list_all is_digit fp"
    using matchesNumber_shape [OF assms] by blast
  then show ?thesis
  proof cases
    case digits
    show ?thesis
    proof (cases s)
      case Nil
      then show ?thesis
        by (simp add: parseFloat_def unsignedDecimal_def str_def)
    next
      case (Cons c cs)
      with digits have "is_digit c"
        by simp
      then have "parseFloat s = unsignedDecimal False s"
        unfolding Cons by (intro parseFloat_unsigned) simp
      then show ?thesis
        using digits Cons
        by (simp add: unsignedDecimal_digits decimal_positive digitsValue_positive)
    qed
  next
    case point
    have head: "parseFloat s = unsignedDecimal False s"
    proof (cases ip)
      case Nil
      then show ?thesis
        unfolding point(1) by (simp add: parseFloat_unsigned)
    next
      case (Cons c cs)
      with point(2) have "is_digit c"
        by simp
      then show ?thesis
        unfolding point(1) Cons by (simp add: parseFloat_unsigned)
    qed
    have "list_all is_digit (ip @ fp)"
      using point by simp
    then have "0 < digitsValue (ip @ fp) \<longleftrightarrow> list_ex nonzero_digit (ip @ fp)"
      by (rule digitsValue_positive)
    moreover have "ip = [] \<and> fp = [] \<Longrightarrow> \<not> list_ex nonzero_digit (ip @ fp)"
      by simp
    ultimately show ?thesis
      unfolding head unfolding point(1)
      by (auto simp: unsignedDecimal_point [OF point(2,3)] decimal_positive point_no_digit)
  qed
qed

section \<open>Claims about the form\<close>

lemmas form_eval =
  session_def updateField_def numericFields_def matchesNumber_def matchesName_def
  isCurrentStepValid_def hasValidNumber_def parseFloat_def unsignedDecimal_def
  exponentPart_def trim_def is_js_space_def
  is_digit_def is_letter_def ch_def str_def digitsValue_def decimal_def goToNextStep_def
  initialForm_def initialFormData_def

text \<open>The form filled in step by step, each step's markup mounted before its inputs are used.\<close>

lemma example_session:
  "handedOver (session
     [Change Name (str ''Ana''), Change Age (str ''30''), Change Gender (str ''Female''),
      Change Height (str ''165''), Change Weight (str ''60''), Change SleepHours (str ''7''),
      Change WaterIntake (str ''2''), ClickNext, ExitComplete,
      Change StressLevel (str ''Low''), ClickNext, ExitComplete,
      Change Location (str ''Home''), Change DietPreference (str ''Vegetarian''), ClickNext])
   = Some anaProfile"
  by (simp add: form_eval anaProfile_def)

text \<open>With the age 0 the Next button of the first step does nothing.\<close>

lemma example_blocked:
  "perform (session
     [Change Name (str ''Ana''), Change Age (str ''0''), Change Gender (str ''Female''),
      Change Height (str ''165''), Change Weight (str ''60''), Change SleepHours (str ''7''),
      Change WaterIntake (str ''2'')]) ClickNext
   = \<lparr>currentStep = 1,
      formData = initialFormData\<lparr>name := str ''Ana'', age := str ''0'', gender := str ''Female'',
        height := str ''165'', weight := str ''60'', sleepHours := str ''7'',
        waterIntake := str ''2''\<rparr>,
      mountedStep = 1,
      handedOver = None\<rparr>"
  by (simp add: form_eval)

text \<open>
  C9. Every profile the form hands over should satisfy the constraints, and one that
  violates them should be stopped at the form. The code does not achieve it. The
  first step is checked only when Next is pressed on it (\<open>isCurrentStepValid\<close>,
  lines 105-118); the checks of the second and third step (lines 120-128) do not look
  at its fields again, and \<open>goToNextStep\<close> checks nothing. The inputs of the first
  step stay mounted while it animates out, and a change made then reaches
  \<open>updateField\<close>, which accepts the empty string and \<open>0\<close>. In the session below the
  user fills the first step in, presses Next, empties the name and sets the age to 0
  before the animation ends, and completes the other steps: the profile handed over
  has an empty name and the age 0, against the constraints.
\<close>

theorem form_hands_over_invalid_profile:
  "handedOver (session
     [Change Name (str ''Ana''), Change Age (str ''30''), Change Gender (str ''Female''),
      Change Height (str ''165''), Change Weight (str ''60''), Change SleepHours (str ''7''),
      Change WaterIntake (str ''2''), ClickNext,
      Change Name [], Change Age (str ''0''), ExitComplete,
      Change StressLevel (str ''Low''), ClickNext, ExitComplete,
      Change Location (str ''Home''), Change DietPreference (str ''Vegetarian''), ClickNext])
   = Some (anaProfile\<lparr>name := [], age := str ''0''\<rparr>)
   \<and> \<not> profileConstraints (anaProfile\<lparr>name := [], age := str ''0''\<rparr>)"
  by (simp add: form_eval anaProfile_def profileConstraints_def validName_def)


end
